theory Spec2Isabelle
  imports Main "HOL-Library.Word" "HOL-Library.Code_Target_Numeral"
begin

section \<open>Key metadata records of the keyring (crypto/keyring/info.go)\<close>

subsection \<open>Types consumed from collaborators\<close>

type_synonym byte = "8 word"

text \<open>Go's \<open>uint\<close>, on a 64-bit platform.\<close>

type_synonym uint = "64 word"

text \<open>
  A value of the interface type \<open>crypto.PubKey\<close>: the nil interface, a threshold
  aggregate (\<open>multisig.PubKeyMultisigThreshold\<close>, a struct with the fields \<open>K\<close> and
  \<open>PubKeys\<close>), or a key of any other concrete type, kept as the name of that type and
  the key's bytes.
\<close>

datatype pubkey =
    PubKeyNil
  | PubKeyConcrete string "byte list"
  | PubKeyMultisigThreshold uint "pubkey list"

text \<open>
  Modelled from the spec: \<open>hd.BIP44Params\<close> is declared outside the file; the spec calls it
  a BIP44-style derivation path, an opaque comparable structure.
\<close>

record BIP44Params =
  Purpose :: "32 word"
  CoinType :: "32 word"
  Account :: "32 word"
  Change :: bool
  AddressIndex :: "32 word"

text \<open>
  Modelled from the spec: \<open>SigningAlgo\<close>, \<open>MultiAlgo\<close> and \<open>KeyType\<close> with its four tags
  are declared outside the file. The signing algorithm is an opaque label, \<open>MultiAlgo\<close> the
  fixed "multisig" label, and the key type one of four static tags.
\<close>

type_synonym SigningAlgo = string

definition MultiAlgo :: SigningAlgo where
  "MultiAlgo = ''multisig''"

datatype KeyType = TypeLocal | TypeLedger | TypeOffline | TypeMulti

subsection \<open>The four records behind the interface \<open>Info\<close>\<close>

record multisigPubKeyInfo =
  PubKey :: pubkey
  Weight :: uint

text \<open>
  The constructors carry the fields of the four structs in their declared order:
  \<open>localInfo Name PubKey PrivKeyArmor Algo\<close>, \<open>ledgerInfo Name PubKey Path Algo\<close>,
  \<open>offlineInfo Name PubKey Algo\<close>, \<open>multiInfo Name PubKey Threshold PubKeys\<close>.
\<close>

datatype Info =
    localInfo string pubkey string SigningAlgo
  | ledgerInfo string pubkey BIP44Params SigningAlgo
  | offlineInfo string pubkey SigningAlgo
  | multiInfo string pubkey uint "multisigPubKeyInfo list"

fun newLocalInfo :: "string \<Rightarrow> pubkey \<Rightarrow> string \<Rightarrow> SigningAlgo \<Rightarrow> Info" where
  "newLocalInfo name pub privArmor algo = localInfo name pub privArmor algo"

fun newLedgerInfo :: "string \<Rightarrow> pubkey \<Rightarrow> BIP44Params \<Rightarrow> SigningAlgo \<Rightarrow> Info" where
  "newLedgerInfo name pub path algo = ledgerInfo name pub path algo"

fun newOfflineInfo :: "string \<Rightarrow> pubkey \<Rightarrow> SigningAlgo \<Rightarrow> Info" where
  "newOfflineInfo name pub algo = offlineInfo name pub algo"

subsection \<open>Ways a call can end without a value\<close>

text \<open>
  A run-time panic: a method call through a nil interface, a failed single-value type
  assertion, an index out of range.
\<close>

datatype panic = NilDereference | InterfaceConversion | IndexOutOfRange

text \<open>An error value built by \<open>fmt.Errorf\<close>, kept as its message.\<close>

datatype error = Errorf string

definition PathUnavailable :: error where
  "PathUnavailable = Errorf ''BIP44 Paths are not available for this type''"

subsection \<open>The accessors\<close>

fun GetType :: "Info \<Rightarrow> KeyType" where
  "GetType (localInfo name pub armor algo) = TypeLocal"
| "GetType (ledgerInfo name pub path algo) = TypeLedger"
| "GetType (offlineInfo name pub algo) = TypeOffline"
| "GetType (multiInfo name pub threshold pubKeys) = TypeMulti"

fun GetName :: "Info \<Rightarrow> string" where
  "GetName (localInfo name pub armor algo) = name"
| "GetName (ledgerInfo name pub path algo) = name"
| "GetName (offlineInfo name pub algo) = name"
| "GetName (multiInfo name pub threshold pubKeys) = name"

fun GetPubKey :: "Info \<Rightarrow> pubkey" where
  "GetPubKey (localInfo name pub armor algo) = pub"
| "GetPubKey (ledgerInfo name pub path algo) = pub"
| "GetPubKey (offlineInfo name pub algo) = pub"
| "GetPubKey (multiInfo name pub threshold pubKeys) = pub"

text \<open>
  The expression \<open>pk.Address().Bytes()\<close>. The method \<open>Address\<close> belongs to the key's
  concrete type, which is outside the file, so it is the parameter \<open>addr\<close>; calling it
  through the nil interface panics.
\<close>

fun deriveAddress :: "(pubkey \<Rightarrow> byte list) \<Rightarrow> pubkey \<Rightarrow> panic + byte list" where
  "deriveAddress addr PubKeyNil = Inl NilDereference"
| "deriveAddress addr pk = Inr (addr pk)"

fun GetAddress :: "(pubkey \<Rightarrow> byte list) \<Rightarrow> Info \<Rightarrow> panic + byte list" where
  "GetAddress addr (localInfo name PubKeyNil armor algo) = Inl NilDereference"
| "GetAddress addr (localInfo name pub armor algo) = Inr (addr pub)"
| "GetAddress addr (ledgerInfo name PubKeyNil path algo) = Inl NilDereference"
| "GetAddress addr (ledgerInfo name pub path algo) = Inr (addr pub)"
| "GetAddress addr (offlineInfo name PubKeyNil algo) = Inl NilDereference"
| "GetAddress addr (offlineInfo name pub algo) = Inr (addr pub)"
| "GetAddress addr (multiInfo name PubKeyNil threshold pubKeys) = Inl NilDereference"
| "GetAddress addr (multiInfo name pub threshold pubKeys) = Inr (addr pub)"

fun GetAlgo :: "Info \<Rightarrow> SigningAlgo" where
  "GetAlgo (localInfo name pub armor algo) = algo"
| "GetAlgo (ledgerInfo name pub path algo) = algo"
| "GetAlgo (offlineInfo name pub algo) = algo"
| "GetAlgo (multiInfo name pub threshold pubKeys) = MultiAlgo"

fun GetPath :: "Info \<Rightarrow> error + BIP44Params" where
  "GetPath (localInfo name pub armor algo) =
     Inl (Errorf ''BIP44 Paths are not available for this type'')"
| "GetPath (ledgerInfo name pub path algo) = Inr path"
| "GetPath (offlineInfo name pub algo) =
     Inl (Errorf ''BIP44 Paths are not available for this type'')"
| "GetPath (multiInfo name pub threshold pubKeys) =
     Inl (Errorf ''BIP44 Paths are not available for this type'')"

subsection \<open>The multisig constructor\<close>

text \<open>The zero value that \<open>make\<close> fills the new slice with.\<close>

definition zero_multisigPubKeyInfo :: multisigPubKeyInfo where
  "zero_multisigPubKeyInfo = \<lparr>PubKey = PubKeyNil, Weight = 0\<rparr>"

text \<open>
  The loop \<open>for i, pk := range multiPK.PubKeys { pubKeys[i] = multisigPubKeyInfo{pk, 1} }\<close>,
  from index \<open>i\<close> on; a store past the end of \<open>pubKeys\<close> panics.
\<close>

fun range_PubKeys ::
  "nat \<Rightarrow> pubkey list \<Rightarrow> multisigPubKeyInfo list \<Rightarrow> panic + multisigPubKeyInfo list" where
  "range_PubKeys i [] pubKeys = Inr pubKeys"
| "range_PubKeys i (pk # pks) pubKeys =
     (if i < length pubKeys
      then range_PubKeys (Suc i) pks (pubKeys[i := \<lparr>PubKey = pk, Weight = 1\<rparr>])
      else Inl IndexOutOfRange)"

text \<open>
  \<open>NewMultiInfo\<close> has the single result \<open>Info\<close>. The type assertion
  \<open>pub.(multisig.PubKeyMultisigThreshold)\<close> is the single-value form, which panics when
  \<open>pub\<close> holds any other type or is nil.
\<close>

fun NewMultiInfo :: "string \<Rightarrow> pubkey \<Rightarrow> panic + Info" where
  "NewMultiInfo name (PubKeyMultisigThreshold K PubKeys) =
     (case range_PubKeys 0 PubKeys (replicate (length PubKeys) zero_multisigPubKeyInfo) of
        Inl p \<Rightarrow> Inl p
      | Inr pubKeys \<Rightarrow> Inr (multiInfo name (PubKeyMultisigThreshold K PubKeys) K pubKeys))"
| "NewMultiInfo name pub = Inl InterfaceConversion"

text \<open>Whether a key holds the asserted type.\<close>

fun is_threshold_key :: "pubkey \<Rightarrow> bool" where
  "is_threshold_key (PubKeyMultisigThreshold K PubKeys) = True"
| "is_threshold_key pub = False"

text \<open>
  The invariant of the data model: the threshold of a multisig record is at most the
  number of its member entries.
\<close>

fun threshold_le_members :: "Info \<Rightarrow> bool" where
  "threshold_le_members (multiInfo name pub threshold pubKeys) = (unat threshold \<le> length pubKeys)"
| "threshold_le_members i = True"

subsection \<open>The discriminated codec\<close>

text \<open>
  Modelled from the spec: the codec \<open>CryptoCdc\<close> and its two methods
  \<open>MustMarshalBinaryLengthPrefixed\<close> and \<open>UnmarshalBinaryLengthPrefixed\<close> are outside
  the file. The spec gives the layout, a varint length, a one-byte variant discriminant,
  then the variant's fields in their fixed order, and the four ways decoding fails. The
  byte serialisations of a public key and of a derivation path are opaque in the spec; they
  are the fields of the codec value, which is passed to both directions explicitly. Every
  field is written as a varint length followed by its bytes, an unsigned integer as a
  varint, the member sequence as its count followed by the entries.
\<close>

datatype DecodeError = UnknownVariant | TruncatedInput | TrailingBytes | MalformedField

record Codec =
  PubKeyBytes :: "pubkey \<Rightarrow> byte list"
  PubKeyFromBytes :: "byte list \<Rightarrow> pubkey option"
  PathBytes :: "BIP44Params \<Rightarrow> byte list"
  PathFromBytes :: "byte list \<Rightarrow> BIP44Params option"

text \<open>The varint: seven bits to a byte, low group first, the high bit set on all but the last.\<close>

function encode_uvarint :: "nat \<Rightarrow> byte list" where
  "encode_uvarint n =
     (if n < 128 then [of_nat n]
      else of_nat (128 + n mod 128) # encode_uvarint (n div 128))"
  by pat_completeness auto
termination
  by (relation "measure id") auto

declare encode_uvarint.simps [simp del]

fun decode_uvarint :: "byte list \<Rightarrow> (nat \<times> byte list) option" where
  "decode_uvarint [] = None"
| "decode_uvarint (b # bs) =
     (if unat b < 128 then Some (unat b, bs)
      else (case decode_uvarint bs of
              None \<Rightarrow> None
            | Some (n, rest) \<Rightarrow> Some (unat b - 128 + 128 * n, rest)))"

definition enc_bytes :: "byte list \<Rightarrow> byte list" where
  "enc_bytes bs = encode_uvarint (length bs) @ bs"

definition enc_string :: "string \<Rightarrow> byte list" where
  "enc_string s = enc_bytes (map (\<lambda>c. of_nat (of_char c)) s)"

definition enc_uint :: "uint \<Rightarrow> byte list" where
  "enc_uint w = encode_uvarint (unat w)"

definition enc_pubkey :: "Codec \<Rightarrow> pubkey \<Rightarrow> byte list" where
  "enc_pubkey cdc pk = enc_bytes (PubKeyBytes cdc pk)"

definition enc_path :: "Codec \<Rightarrow> BIP44Params \<Rightarrow> byte list" where
  "enc_path cdc p = enc_bytes (PathBytes cdc p)"

definition enc_member :: "Codec \<Rightarrow> multisigPubKeyInfo \<Rightarrow> byte list" where
  "enc_member cdc m = enc_pubkey cdc (PubKey m) @ enc_uint (Weight m)"

definition enc_members :: "Codec \<Rightarrow> multisigPubKeyInfo list \<Rightarrow> byte list" where
  "enc_members cdc ms = encode_uvarint (length ms) @ concat (map (enc_member cdc) ms)"

text \<open>The discriminant written for each of the four tags of \<open>GetType\<close>.\<close>

fun variant_tag :: "KeyType \<Rightarrow> byte" where
  "variant_tag TypeLocal = 0"
| "variant_tag TypeLedger = 1"
| "variant_tag TypeOffline = 2"
| "variant_tag TypeMulti = 3"

text \<open>The fields of each variant in its fixed order, the signing algorithm last.\<close>

fun enc_fields :: "Codec \<Rightarrow> Info \<Rightarrow> byte list" where
  "enc_fields cdc (localInfo name pub armor algo) =
     enc_string name @ enc_pubkey cdc pub @ enc_string armor @ enc_string algo"
| "enc_fields cdc (ledgerInfo name pub path algo) =
     enc_string name @ enc_pubkey cdc pub @ enc_path cdc path @ enc_string algo"
| "enc_fields cdc (offlineInfo name pub algo) =
     enc_string name @ enc_pubkey cdc pub @ enc_string algo"
| "enc_fields cdc (multiInfo name pub threshold pubKeys) =
     enc_string name @ enc_pubkey cdc pub @ enc_uint threshold @ enc_members cdc pubKeys"

text \<open>
  Modelled from the spec: \<open>encode\<close> writes a length prefix, then the variant discriminant,
  then the variant's fields.
\<close>

definition MustMarshalBinaryLengthPrefixed :: "Codec \<Rightarrow> Info \<Rightarrow> byte list" where
  "MustMarshalBinaryLengthPrefixed cdc i =
     (let body = variant_tag (GetType i) # enc_fields cdc i
      in encode_uvarint (length body) @ body)"

text \<open>A decoded field together with the bytes that follow it, or the failure.\<close>

type_synonym 'a decoded = "DecodeError + ('a \<times> byte list)"

definition and_then ::
  "'a decoded \<Rightarrow> ('a \<Rightarrow> byte list \<Rightarrow> DecodeError + 'b) \<Rightarrow> DecodeError + 'b" where
  "and_then r f = (case r of Inl e \<Rightarrow> Inl e | Inr (x, rest) \<Rightarrow> f x rest)"

definition dec_bytes :: "byte list \<Rightarrow> (byte list) decoded" where
  "dec_bytes bz =
     (case decode_uvarint bz of
        None \<Rightarrow> Inl MalformedField
      | Some (n, rest) \<Rightarrow>
          if length rest < n then Inl MalformedField else Inr (take n rest, drop n rest))"

definition dec_string :: "byte list \<Rightarrow> string decoded" where
  "dec_string bz =
     and_then (dec_bytes bz) (\<lambda>raw rest. Inr (map (\<lambda>b. char_of (unat b)) raw, rest))"

definition dec_uint :: "byte list \<Rightarrow> uint decoded" where
  "dec_uint bz =
     (case decode_uvarint bz of
        None \<Rightarrow> Inl MalformedField
      | Some (n, rest) \<Rightarrow> if n < 2 ^ 64 then Inr (of_nat n, rest) else Inl MalformedField)"

definition dec_pubkey :: "Codec \<Rightarrow> byte list \<Rightarrow> pubkey decoded" where
  "dec_pubkey cdc bz =
     and_then (dec_bytes bz) (\<lambda>raw rest.
       case PubKeyFromBytes cdc raw of
         None \<Rightarrow> Inl MalformedField
       | Some pk \<Rightarrow> Inr (pk, rest))"

definition dec_path :: "Codec \<Rightarrow> byte list \<Rightarrow> BIP44Params decoded" where
  "dec_path cdc bz =
     and_then (dec_bytes bz) (\<lambda>raw rest.
       case PathFromBytes cdc raw of
         None \<Rightarrow> Inl MalformedField
       | Some p \<Rightarrow> Inr (p, rest))"

definition dec_member :: "Codec \<Rightarrow> byte list \<Rightarrow> multisigPubKeyInfo decoded" where
  "dec_member cdc bz =
     and_then (dec_pubkey cdc bz) (\<lambda>pk r1.
     and_then (dec_uint r1) (\<lambda>w r2.
       Inr (\<lparr>PubKey = pk, Weight = w\<rparr>, r2)))"

fun dec_members :: "Codec \<Rightarrow> nat \<Rightarrow> byte list \<Rightarrow> (multisigPubKeyInfo list) decoded" where
  "dec_members cdc 0 bz = Inr ([], bz)"
| "dec_members cdc (Suc n) bz =
     and_then (dec_member cdc bz) (\<lambda>m r1.
     and_then (dec_members cdc n r1) (\<lambda>ms r2.
       Inr (m # ms, r2)))"

text \<open>A variant's fields must use up the record.\<close>

definition end_of_record :: "Info \<Rightarrow> byte list \<Rightarrow> DecodeError + Info" where
  "end_of_record i rest = (if rest = [] then Inr i else Inl MalformedField)"

definition dec_localInfo :: "Codec \<Rightarrow> byte list \<Rightarrow> DecodeError + Info" where
  "dec_localInfo cdc bz =
     and_then (dec_string bz) (\<lambda>name r1.
     and_then (dec_pubkey cdc r1) (\<lambda>pub r2.
     and_then (dec_string r2) (\<lambda>armor r3.
     and_then (dec_string r3) (\<lambda>algo r4.
       end_of_record (localInfo name pub armor algo) r4))))"

definition dec_ledgerInfo :: "Codec \<Rightarrow> byte list \<Rightarrow> DecodeError + Info" where
  "dec_ledgerInfo cdc bz =
     and_then (dec_string bz) (\<lambda>name r1.
     and_then (dec_pubkey cdc r1) (\<lambda>pub r2.
     and_then (dec_path cdc r2) (\<lambda>path r3.
     and_then (dec_string r3) (\<lambda>algo r4.
       end_of_record (ledgerInfo name pub path algo) r4))))"

definition dec_offlineInfo :: "Codec \<Rightarrow> byte list \<Rightarrow> DecodeError + Info" where
  "dec_offlineInfo cdc bz =
     and_then (dec_string bz) (\<lambda>name r1.
     and_then (dec_pubkey cdc r1) (\<lambda>pub r2.
     and_then (dec_string r2) (\<lambda>algo r3.
       end_of_record (offlineInfo name pub algo) r3)))"

definition dec_multiInfo :: "Codec \<Rightarrow> byte list \<Rightarrow> DecodeError + Info" where
  "dec_multiInfo cdc bz =
     and_then (dec_string bz) (\<lambda>name r1.
     and_then (dec_pubkey cdc r1) (\<lambda>pub r2.
     and_then (dec_uint r2) (\<lambda>threshold r3.
     and_then (case decode_uvarint r3 of
                 None \<Rightarrow> Inl MalformedField
               | Some (n, r4) \<Rightarrow> dec_members cdc n r4) (\<lambda>pubKeys r5.
       end_of_record (multiInfo name pub threshold pubKeys) r5))))"

text \<open>
  Modelled from the spec: \<open>decode\<close> reads the length prefix, checks it against the length
  of what remains (\<open>TruncatedInput\<close> when bytes are missing, \<open>TrailingBytes\<close> when there
  are too many), reads the discriminant and hands the rest to the decoder of that
  variant's fields; a discriminant that is none of the four tags is \<open>UnknownVariant\<close>.
\<close>

definition UnmarshalBinaryLengthPrefixed :: "Codec \<Rightarrow> byte list \<Rightarrow> DecodeError + Info" where
  "UnmarshalBinaryLengthPrefixed cdc bz =
     (case decode_uvarint bz of
        None \<Rightarrow> Inl TruncatedInput
      | Some (n, rest) \<Rightarrow>
          if length rest < n then Inl TruncatedInput
          else if n < length rest then Inl TrailingBytes
          else (case rest of
                  [] \<Rightarrow> Inl TruncatedInput
                | tag # payload \<Rightarrow>
                    if tag = variant_tag TypeLocal then dec_localInfo cdc payload
                    else if tag = variant_tag TypeLedger then dec_ledgerInfo cdc payload
                    else if tag = variant_tag TypeOffline then dec_offlineInfo cdc payload
                    else if tag = variant_tag TypeMulti then dec_multiInfo cdc payload
                    else Inl UnknownVariant))"

text \<open>The two functions of the file, with the package's codec as their first argument.\<close>

definition marshalInfo :: "Codec \<Rightarrow> Info \<Rightarrow> byte list" where
  "marshalInfo cdc i = MustMarshalBinaryLengthPrefixed cdc i"

definition unmarshalInfo :: "Codec \<Rightarrow> byte list \<Rightarrow> DecodeError + Info" where
  "unmarshalInfo cdc bz = UnmarshalBinaryLengthPrefixed cdc bz"

text \<open>The member keys of a record, in the order of its entries.\<close>

fun member_keys :: "Info \<Rightarrow> pubkey list" where
  "member_keys (multiInfo name pub threshold pubKeys) = map PubKey pubKeys"
| "member_keys i = []"

text \<open>
  The discriminant of a buffer that has the layout: a length prefix, then exactly that
  many bytes, the first of which is the discriminant.
\<close>

definition discriminant :: "byte list \<Rightarrow> byte option" where
  "discriminant bz =
     (case decode_uvarint bz of
        None \<Rightarrow> None
      | Some (n, rest) \<Rightarrow>
          (case rest of
             [] \<Rightarrow> None
           | tag # payload \<Rightarrow> if length rest = n then Some tag else None))"

text \<open>
  A codec value to run the codec on concrete records. Its key serialisation is a table of
  four keys, three secp256k1 keys and their 2-of-3 aggregate, each written as its index;
  a path is written as its five components, one byte each.
\<close>

definition sample_members :: "pubkey list" where
  "sample_members =
     [PubKeyConcrete ''secp256k1'' [2, 10], PubKeyConcrete ''secp256k1'' [2, 11],
      PubKeyConcrete ''secp256k1'' [3, 12]]"

definition sample_aggregate :: pubkey where
  "sample_aggregate = PubKeyMultisigThreshold 2 sample_members"

definition sample_table :: "pubkey list" where
  "sample_table = sample_aggregate # sample_members"

definition sample_codec :: Codec where
  "sample_codec =
     \<lparr>PubKeyBytes = (\<lambda>pk. map of_nat (filter (\<lambda>k. sample_table ! k = pk) [0, 1, 2, 3])),
      PubKeyFromBytes = (\<lambda>bs. case bs of
                            [b] \<Rightarrow> if unat b < 4 then Some (sample_table ! unat b) else None
                          | _ \<Rightarrow> None),
      PathBytes = (\<lambda>p. [ucast (Purpose p), ucast (CoinType p), ucast (Account p),
                          if Change p then 1 else 0, ucast (AddressIndex p)]),
      PathFromBytes = (\<lambda>bs. case bs of
                          [a, b, c, d, e] \<Rightarrow>
                            Some \<lparr>Purpose = ucast a, CoinType = ucast b, Account = ucast c,
                                  Change = (d \<noteq> 0), AddressIndex = ucast e\<rparr>
                        | _ \<Rightarrow> None)\<rparr>"

section \<open>Properties\<close>

subsection \<open>The accessors\<close>

text \<open>
  C3: \<open>GetPath\<close> succeeds exactly on a ledger record and then returns the stored path;
  on a local, an offline and a multisig record it fails with the error
  \<open>PathUnavailable\<close>.
\<close>

theorem GetPath_available_iff_ledger:
  "GetPath (ledgerInfo name pub path algo) = Inr path
   \<and> ((\<exists>p. GetPath i = Inr p) \<longleftrightarrow> GetType i = TypeLedger)
   \<and> (GetType i \<in> {TypeLocal, TypeOffline, TypeMulti} \<longrightarrow> GetPath i = Inl PathUnavailable)"
  by (cases i) (simp_all add: PathUnavailable_def)

theorem GetPath_available_iff_ledger_witness:
  "GetType (multiInfo ''m'' (PubKeyMultisigThreshold 1 [PubKeyConcrete ''ed25519'' [7]]) 1
      [\<lparr>PubKey = PubKeyConcrete ''ed25519'' [7], Weight = 1\<rparr>]) \<in> {TypeLocal, TypeOffline, TypeMulti}
   \<and> GetPath (multiInfo ''m'' (PubKeyMultisigThreshold 1 [PubKeyConcrete ''ed25519'' [7]]) 1
      [\<lparr>PubKey = PubKeyConcrete ''ed25519'' [7], Weight = 1\<rparr>]) = Inl PathUnavailable"
  using GetPath_available_iff_ledger
    [of "''l''" PubKeyNil "\<lparr>Purpose = 44, CoinType = 118, Account = 0, Change = False, AddressIndex = 0\<rparr>" "''secp256k1''"
        "multiInfo ''m'' (PubKeyMultisigThreshold 1 [PubKeyConcrete ''ed25519'' [7]]) 1
          [\<lparr>PubKey = PubKeyConcrete ''ed25519'' [7], Weight = 1\<rparr>]"]
  by simp

text \<open>
  C6: on every record \<open>GetAddress\<close> is the address derived from \<open>GetPubKey\<close>; the
  record stores no address, so two records with the same public key have the same address.
\<close>

theorem GetAddress_derived_from_GetPubKey:
  "GetAddress addr i = deriveAddress addr (GetPubKey i)
   \<and> (GetPubKey i = GetPubKey j \<longrightarrow> GetAddress addr i = GetAddress addr j)"
proof -
  have derived: "GetAddress addr r = deriveAddress addr (GetPubKey r)" for r
  proof (cases r)
    case (localInfo name pub armor algo)
    then show ?thesis by (cases pub) simp_all
  next
    case (ledgerInfo name pub path algo)
    then show ?thesis by (cases pub) simp_all
  next
    case (offlineInfo name pub algo)
    then show ?thesis by (cases pub) simp_all
  next
    case (multiInfo name pub threshold pubKeys)
    then show ?thesis by (cases pub) simp_all
  qed
  show ?thesis by (simp add: derived)
qed

theorem GetAddress_derived_from_GetPubKey_witness:
  "GetPubKey (localInfo ''a'' (PubKeyConcrete ''secp256k1'' [2, 9]) ''armor'' ''secp256k1'')
     = GetPubKey (offlineInfo ''b'' (PubKeyConcrete ''secp256k1'' [2, 9]) ''secp256k1'')
   \<and> GetAddress (\<lambda>pk. [1, 2, 3]) (localInfo ''a'' (PubKeyConcrete ''secp256k1'' [2, 9]) ''armor'' ''secp256k1'')
     = GetAddress (\<lambda>pk. [1, 2, 3]) (offlineInfo ''b'' (PubKeyConcrete ''secp256k1'' [2, 9]) ''secp256k1'')"
  using GetAddress_derived_from_GetPubKey
    [of "\<lambda>pk. [1, 2, 3]" "localInfo ''a'' (PubKeyConcrete ''secp256k1'' [2, 9]) ''armor'' ''secp256k1''"
        "offlineInfo ''b'' (PubKeyConcrete ''secp256k1'' [2, 9]) ''secp256k1''"]
  by simp

text \<open>
  C9: \<open>GetAlgo\<close> of a multisig record is \<open>MultiAlgo\<close>, whatever its name, key, threshold
  and member entries are.
\<close>

theorem GetAlgo_multiInfo: "GetAlgo (multiInfo name pub threshold pubKeys) = MultiAlgo"
  by simp

text \<open>
  C10: two local records that differ only in the encrypted private key give the same
  result under each of the six accessors, so no accessor returns the blob or anything
  computed from it.
\<close>

theorem PrivKeyArmor_not_observable:
  "GetType (localInfo name pub armor algo) = GetType (localInfo name pub armor' algo)
   \<and> GetName (localInfo name pub armor algo) = GetName (localInfo name pub armor' algo)
   \<and> GetPubKey (localInfo name pub armor algo) = GetPubKey (localInfo name pub armor' algo)
   \<and> GetAddress addr (localInfo name pub armor algo) = GetAddress addr (localInfo name pub armor' algo)
   \<and> GetAlgo (localInfo name pub armor algo) = GetAlgo (localInfo name pub armor' algo)
   \<and> GetPath (localInfo name pub armor algo) = GetPath (localInfo name pub armor' algo)"
  by (cases pub) simp_all

subsection \<open>The multisig constructor\<close>

lemma range_PubKeys_fills:
  "length pubKeys = i + length pks \<Longrightarrow>
   range_PubKeys i pks pubKeys = Inr (take i pubKeys @ map (\<lambda>pk. \<lparr>PubKey = pk, Weight = 1\<rparr>) pks)"
proof (induction pks arbitrary: i pubKeys)
  case Nil
  then show ?case by simp
next
  case (Cons pk pks)
  let ?v = "\<lparr>PubKey = pk, Weight = 1\<rparr>"
  from Cons.prems have i: "i < length pubKeys" by simp
  from Cons.prems have len: "length (pubKeys[i := ?v]) = Suc i + length pks" by simp
  have "take (Suc i) (pubKeys[i := ?v]) = take i pubKeys @ [?v]"
    using i by (simp add: take_Suc_conv_app_nth)
  with Cons.IH [OF len] i show ?case by simp
qed

lemma NewMultiInfo_threshold_key:
  "NewMultiInfo name (PubKeyMultisigThreshold K PubKeys) =
     Inr (multiInfo name (PubKeyMultisigThreshold K PubKeys) K
            (map (\<lambda>pk. \<lparr>PubKey = pk, Weight = 1\<rparr>) PubKeys))"
  by (simp add: range_PubKeys_fills)

text \<open>
  C4: from a threshold aggregate with threshold \<open>K\<close> and members \<open>PubKeys\<close> the constructor
  returns the multisig record with the given name, the aggregate as its key, the threshold
  \<open>K\<close>, and one entry of weight 1 for each member, in the members' order; a member that is
  itself an aggregate is one entry like any other.
\<close>

theorem NewMultiInfo_builds_record:
  "NewMultiInfo name (PubKeyMultisigThreshold K PubKeys) =
     Inr (multiInfo name (PubKeyMultisigThreshold K PubKeys) K
            (map (\<lambda>pk. \<lparr>PubKey = pk, Weight = 1\<rparr>) PubKeys))"
  by (rule NewMultiInfo_threshold_key)

text \<open>
  C2, as the code has it: on a key that is not a threshold aggregate the constructor does
  not return; the type assertion panics. The constructor has no error result.
\<close>

theorem NewMultiInfo_panics_on_other_key:
  "\<not> is_threshold_key pub \<Longrightarrow> NewMultiInfo name pub = Inl InterfaceConversion"
  by (cases pub) simp_all

theorem NewMultiInfo_panics_on_other_key_witness:
  "\<not> is_threshold_key PubKeyNil \<and> NewMultiInfo ''ghost'' PubKeyNil = Inl InterfaceConversion"
  using NewMultiInfo_panics_on_other_key [of PubKeyNil "''ghost''"] by simp

text \<open>
  C2 fails as stated: on a secp256k1 key the call ends in the panic of the type assertion,
  not in an error handed back to the caller.
\<close>

theorem NewMultiInfo_no_error_counterexample:
  "\<not> is_threshold_key (PubKeyConcrete ''secp256k1'' [2, 9])
   \<and> NewMultiInfo ''x'' (PubKeyConcrete ''secp256k1'' [2, 9]) = Inl InterfaceConversion"
  by simp

text \<open>
  C8, as the code has it: the constructor copies the threshold and makes one entry for
  each member without comparing the two, so the record satisfies the invariant when the
  aggregate's threshold is at most the number of its members.
\<close>

theorem NewMultiInfo_threshold_invariant:
  "unat K \<le> length PubKeys \<Longrightarrow>
   \<exists>i. NewMultiInfo name (PubKeyMultisigThreshold K PubKeys) = Inr i \<and> threshold_le_members i"
  by (simp add: NewMultiInfo_threshold_key del: NewMultiInfo.simps)

theorem NewMultiInfo_threshold_invariant_witness:
  "unat (2 :: uint) \<le> length [PubKeyConcrete ''secp256k1'' [1], PubKeyConcrete ''secp256k1'' [2],
                               PubKeyConcrete ''secp256k1'' [3]]
   \<and> (\<exists>i. NewMultiInfo ''x'' (PubKeyMultisigThreshold 2
              [PubKeyConcrete ''secp256k1'' [1], PubKeyConcrete ''secp256k1'' [2],
               PubKeyConcrete ''secp256k1'' [3]]) = Inr i \<and> threshold_le_members i)"
  using NewMultiInfo_threshold_invariant
    [of 2 "[PubKeyConcrete ''secp256k1'' [1], PubKeyConcrete ''secp256k1'' [2],
            PubKeyConcrete ''secp256k1'' [3]]" "''x''"]
  by simp

text \<open>
  C8 fails as stated: an aggregate with threshold 3 and two members gives a record
  with threshold 3 and two entries.
\<close>

theorem NewMultiInfo_threshold_counterexample:
  "NewMultiInfo ''x'' (PubKeyMultisigThreshold 3
      [PubKeyConcrete ''secp256k1'' [1], PubKeyConcrete ''secp256k1'' [2]]) =
     Inr (multiInfo ''x'' (PubKeyMultisigThreshold 3
            [PubKeyConcrete ''secp256k1'' [1], PubKeyConcrete ''secp256k1'' [2]]) 3
            [\<lparr>PubKey = PubKeyConcrete ''secp256k1'' [1], Weight = 1\<rparr>,
             \<lparr>PubKey = PubKeyConcrete ''secp256k1'' [2], Weight = 1\<rparr>])
   \<and> \<not> threshold_le_members (multiInfo ''x'' (PubKeyMultisigThreshold 3
            [PubKeyConcrete ''secp256k1'' [1], PubKeyConcrete ''secp256k1'' [2]]) 3
            [\<lparr>PubKey = PubKeyConcrete ''secp256k1'' [1], Weight = 1\<rparr>,
             \<lparr>PubKey = PubKeyConcrete ''secp256k1'' [2], Weight = 1\<rparr>])"
  by (simp add: zero_multisigPubKeyInfo_def)

subsection \<open>The codec\<close>

lemma unat_byte: "n < 256 \<Longrightarrow> unat (of_nat n :: byte) = n"
  by (simp add: unat_of_nat)

lemma encode_uvarint_small: "n < 128 \<Longrightarrow> encode_uvarint n = [of_nat n]"
  by (subst encode_uvarint.simps) simp

lemma encode_uvarint_large:
  "\<not> n < 128 \<Longrightarrow> encode_uvarint n = of_nat (128 + n mod 128) # encode_uvarint (n div 128)"
  by (subst encode_uvarint.simps) simp

lemma decode_encode_uvarint: "decode_uvarint (encode_uvarint n @ rest) = Some (n, rest)"
proof (induction n rule: encode_uvarint.induct)
  case (1 n)
  show ?case
  proof (cases "n < 128")
    case True
    then show ?thesis by (simp add: encode_uvarint_small unat_byte)
  next
    case False
    have high: "unat (of_nat (128 + n mod 128) :: byte) = 128 + n mod 128"
      by (rule unat_byte) simp
    from False 1 have "decode_uvarint (encode_uvarint (n div 128) @ rest) = Some (n div 128, rest)"
      by simp
    with high show ?thesis by (simp add: encode_uvarint_large [OF False])
  qed
qed

lemma and_then_Inr: "and_then (Inr (x, rest)) f = f x rest"
  by (simp add: and_then_def)

lemma dec_enc_bytes: "dec_bytes (enc_bytes bs @ rest) = Inr (bs, rest)"
  by (simp add: dec_bytes_def enc_bytes_def decode_encode_uvarint)

lemma char_byte: "char_of (unat (of_nat (of_char c) :: byte)) = c"
  by (subst unat_byte) simp_all

lemma dec_enc_string: "dec_string (enc_string s @ rest) = Inr (s, rest)"
  by (simp add: dec_string_def enc_string_def dec_enc_bytes and_then_Inr char_byte comp_def)

lemma dec_enc_uint: "dec_uint (enc_uint w @ rest) = Inr (w, rest)"
proof -
  have "unat w < 2 ^ 64" using unsigned_less [of w] by simp
  then show ?thesis
    by (simp add: dec_uint_def enc_uint_def decode_encode_uvarint)
qed

lemma dec_enc_pubkey:
  "PubKeyFromBytes cdc (PubKeyBytes cdc pk) = Some pk \<Longrightarrow>
   dec_pubkey cdc (enc_pubkey cdc pk @ rest) = Inr (pk, rest)"
  by (simp add: dec_pubkey_def enc_pubkey_def dec_enc_bytes and_then_Inr)

lemma dec_enc_path:
  "PathFromBytes cdc (PathBytes cdc p) = Some p \<Longrightarrow>
   dec_path cdc (enc_path cdc p @ rest) = Inr (p, rest)"
  by (simp add: dec_path_def enc_path_def dec_enc_bytes and_then_Inr)

lemma dec_enc_member:
  "PubKeyFromBytes cdc (PubKeyBytes cdc (PubKey m)) = Some (PubKey m) \<Longrightarrow>
   dec_member cdc (enc_member cdc m @ rest) = Inr (m, rest)"
  by (simp add: dec_member_def enc_member_def dec_enc_pubkey dec_enc_uint and_then_Inr)

lemma dec_enc_members:
  "\<forall>m \<in> set ms. PubKeyFromBytes cdc (PubKeyBytes cdc (PubKey m)) = Some (PubKey m) \<Longrightarrow>
   dec_members cdc (length ms) (concat (map (enc_member cdc) ms) @ rest) = Inr (ms, rest)"
  by (induction ms) (simp_all add: dec_enc_member and_then_Inr)

lemma unmarshal_marshal_body:
  "UnmarshalBinaryLengthPrefixed cdc (MustMarshalBinaryLengthPrefixed cdc v) =
     (case v of
        localInfo name pub armor algo \<Rightarrow> dec_localInfo cdc (enc_fields cdc v)
      | ledgerInfo name pub path algo \<Rightarrow> dec_ledgerInfo cdc (enc_fields cdc v)
      | offlineInfo name pub algo \<Rightarrow> dec_offlineInfo cdc (enc_fields cdc v)
      | multiInfo name pub threshold pubKeys \<Rightarrow> dec_multiInfo cdc (enc_fields cdc v))"
  by (cases v)
    (simp_all add: UnmarshalBinaryLengthPrefixed_def MustMarshalBinaryLengthPrefixed_def
      decode_encode_uvarint del: enc_fields.simps)

text \<open>
  C1: decoding the encoding of a record of any of the four variants gives the record
  back, every field equal and the member entries in their order, for a codec whose
  serialisation of keys and paths can be read back on the keys and the path of the record.
\<close>

theorem unmarshalInfo_marshalInfo:
  assumes keys: "\<forall>pk \<in> set (GetPubKey v # member_keys v).
                   PubKeyFromBytes cdc (PubKeyBytes cdc pk) = Some pk"
    and paths: "\<forall>p. GetPath v = Inr p \<longrightarrow> PathFromBytes cdc (PathBytes cdc p) = Some p"
  shows "unmarshalInfo cdc (marshalInfo cdc v) = Inr v"
proof (cases v)
  case (localInfo name pub armor algo)
  with keys have "dec_localInfo cdc (enc_fields cdc v) = Inr v"
    using dec_enc_string [of algo "[]"]
    by (simp add: dec_localInfo_def dec_enc_string dec_enc_pubkey and_then_Inr end_of_record_def)
  with localInfo show ?thesis
    by (simp add: unmarshalInfo_def marshalInfo_def unmarshal_marshal_body del: enc_fields.simps)
next
  case (ledgerInfo name pub path algo)
  with keys paths have "dec_ledgerInfo cdc (enc_fields cdc v) = Inr v"
    using dec_enc_string [of algo "[]"]
    by (simp add: dec_ledgerInfo_def dec_enc_string dec_enc_pubkey dec_enc_path and_then_Inr
        end_of_record_def)
  with ledgerInfo show ?thesis
    by (simp add: unmarshalInfo_def marshalInfo_def unmarshal_marshal_body del: enc_fields.simps)
next
  case (offlineInfo name pub algo)
  with keys have "dec_offlineInfo cdc (enc_fields cdc v) = Inr v"
    using dec_enc_string [of algo "[]"]
    by (simp add: dec_offlineInfo_def dec_enc_string dec_enc_pubkey and_then_Inr end_of_record_def)
  with offlineInfo show ?thesis
    by (simp add: unmarshalInfo_def marshalInfo_def unmarshal_marshal_body del: enc_fields.simps)
next
  case (multiInfo name pub threshold pubKeys)
  with keys have members:
    "\<forall>m \<in> set pubKeys. PubKeyFromBytes cdc (PubKeyBytes cdc (PubKey m)) = Some (PubKey m)"
    by simp
  from multiInfo keys have "dec_multiInfo cdc (enc_fields cdc v) = Inr v"
    using dec_enc_members [OF members, of "[]"]
    by (simp add: dec_multiInfo_def dec_enc_string dec_enc_pubkey dec_enc_uint enc_members_def
        decode_encode_uvarint and_then_Inr end_of_record_def)
  with multiInfo show ?thesis
    by (simp add: unmarshalInfo_def marshalInfo_def unmarshal_marshal_body del: enc_fields.simps)
qed

theorem unmarshalInfo_marshalInfo_witness:
  "unmarshalInfo sample_codec
     (marshalInfo sample_codec
        (multiInfo ''joint'' sample_aggregate 2
           (map (\<lambda>pk. \<lparr>PubKey = pk, Weight = 1\<rparr>) sample_members))) =
     Inr (multiInfo ''joint'' sample_aggregate 2
            (map (\<lambda>pk. \<lparr>PubKey = pk, Weight = 1\<rparr>) sample_members))
   \<and> unmarshalInfo sample_codec
       (marshalInfo sample_codec
          (ledgerInfo ''cold'' (PubKeyConcrete ''secp256k1'' [2, 10])
             \<lparr>Purpose = 44, CoinType = 118, Account = 0, Change = False, AddressIndex = 5\<rparr>
             ''secp256k1'')) =
     Inr (ledgerInfo ''cold'' (PubKeyConcrete ''secp256k1'' [2, 10])
            \<lparr>Purpose = 44, CoinType = 118, Account = 0, Change = False, AddressIndex = 5\<rparr>
            ''secp256k1'')"
proof -
  let ?m = "multiInfo ''joint'' sample_aggregate 2
              (map (\<lambda>pk. \<lparr>PubKey = pk, Weight = 1\<rparr>) sample_members)"
  let ?l = "ledgerInfo ''cold'' (PubKeyConcrete ''secp256k1'' [2, 10])
              \<lparr>Purpose = 44, CoinType = 118, Account = 0, Change = False, AddressIndex = 5\<rparr>
              ''secp256k1''"
  have table: "\<forall>pk \<in> set sample_table.
                 PubKeyFromBytes sample_codec (PubKeyBytes sample_codec pk) = Some pk"
    unfolding sample_codec_def sample_table_def sample_aggregate_def sample_members_def
    by simp
  have "GetPubKey ?m # member_keys ?m = sample_table"
    by (simp add: sample_table_def comp_def)
  with table have keys_m: "\<forall>pk \<in> set (GetPubKey ?m # member_keys ?m).
                  PubKeyFromBytes sample_codec (PubKeyBytes sample_codec pk) = Some pk"
    by (simp only:)
  have paths_m: "\<forall>p. GetPath ?m = Inr p \<longrightarrow>
                   PathFromBytes sample_codec (PathBytes sample_codec p) = Some p"
    by simp
  have "set (GetPubKey ?l # member_keys ?l) \<subseteq> set sample_table"
    by (simp add: sample_table_def sample_members_def)
  with table have keys_l: "\<forall>pk \<in> set (GetPubKey ?l # member_keys ?l).
                  PubKeyFromBytes sample_codec (PubKeyBytes sample_codec pk) = Some pk"
    by blast
  have paths_l: "\<forall>p. GetPath ?l = Inr p \<longrightarrow>
                   PathFromBytes sample_codec (PathBytes sample_codec p) = Some p"
    by (simp add: sample_codec_def)
  show ?thesis
    using unmarshalInfo_marshalInfo [OF keys_m paths_m] unmarshalInfo_marshalInfo [OF keys_l paths_l]
    by (rule conjI)
qed

text \<open>
  C5: a buffer whose discriminant is none of the four tags is rejected with
  \<open>UnknownVariant\<close>, so it decodes to no record of any variant; an encoded record
  cut short by its last byte is rejected with \<open>TruncatedInput\<close>.
\<close>

theorem unmarshalInfo_rejects_corrupted:
  "(discriminant bz = Some tag
      \<and> tag \<notin> {variant_tag TypeLocal, variant_tag TypeLedger, variant_tag TypeOffline,
                variant_tag TypeMulti}
    \<longrightarrow> unmarshalInfo cdc bz = Inl UnknownVariant)
   \<and> unmarshalInfo cdc (butlast (marshalInfo cdc v)) = Inl TruncatedInput"
proof
  show "discriminant bz = Some tag
      \<and> tag \<notin> {variant_tag TypeLocal, variant_tag TypeLedger, variant_tag TypeOffline,
                variant_tag TypeMulti}
    \<longrightarrow> unmarshalInfo cdc bz = Inl UnknownVariant"
    by (auto simp: discriminant_def unmarshalInfo_def UnmarshalBinaryLengthPrefixed_def
        split: option.splits list.splits if_splits)
next
  let ?body = "variant_tag (GetType v) # enc_fields cdc v"
  have "butlast (marshalInfo cdc v) = encode_uvarint (length ?body) @ butlast ?body"
    by (simp add: marshalInfo_def MustMarshalBinaryLengthPrefixed_def butlast_append
        del: enc_fields.simps)
  then show "unmarshalInfo cdc (butlast (marshalInfo cdc v)) = Inl TruncatedInput"
    by (simp add: unmarshalInfo_def UnmarshalBinaryLengthPrefixed_def decode_encode_uvarint
        del: enc_fields.simps butlast.simps)
qed

theorem unmarshalInfo_rejects_corrupted_witness:
  "discriminant [1, 255] = Some 255
   \<and> (255 :: byte) \<notin> {variant_tag TypeLocal, variant_tag TypeLedger, variant_tag TypeOffline,
                        variant_tag TypeMulti}
   \<and> unmarshalInfo sample_codec [1, 255] = Inl UnknownVariant"
  using unmarshalInfo_rejects_corrupted [of "[1, 255]" 255 sample_codec]
  by (simp add: discriminant_def)

end
